theory Spec2Isabelle
  imports Complex_Main "HOL-Library.AList"
begin

section \<open>The plot manager of \<^verbatim>\<open>chia/plotting/manager.py\<close>\<close>

text \<open>
  The development embeds class \<^verbatim>\<open>PlotManager\<close>: the admission gate
  \<^verbatim>\<open>processing_required\<close>, the per-file worker \<^verbatim>\<open>process_file\<close>, the batch
  processor \<^verbatim>\<open>process_batch\<close>, \<^verbatim>\<open>reset\<close> and the refresh loop
  \<^verbatim>\<open>_refresh_task\<close>.

  Conventions of the embedding.
  \<^item> A Python \<^verbatim>\<open>dict\<close> is an association list in insertion order
    (\<open>AList.update\<close> overwrites in place or appends, \<open>AList.delete\<close> is \<^verbatim>\<open>del\<close>,
    \<open>map_of\<close> is the lookup).
  \<^item> \<^verbatim>\<open>Set[Path]\<close> is a HOL set. The \<^verbatim>\<open>Set[str]\<close> of duplicate parents is
    iterated by the source (to build the list of removed paths), so it is a list without
    repetitions, iterated in insertion order; Python leaves that order unspecified.
  \<^item> \<^verbatim>\<open>time.time()\<close> is a real number; \<^verbatim>\<open>int(...)\<close> truncates towards zero.
  \<^item> Everything outside the class (clock, file system, the observer callback, writes of
    other threads to \<^verbatim>\<open>_refreshing_enabled\<close>, constants of other modules) is a
    \<open>world\<close> snapshot. The leaf methods take the snapshot in which they run; the loop
    takes a sequence of snapshots indexed by a step counter.
  \<^item> Objects shared by reference (a cache entry handed out by \<^verbatim>\<open>cache.get\<close>, the
    tuple stored in \<^verbatim>\<open>plot_filename_paths\<close>) are mutated in place by the source; the
    model writes the change back under the key the object is stored at.
\<close>

subsection \<open>Paths\<close>

text \<open>
  A \<^verbatim>\<open>pathlib.Path\<close> of a plot file is given by the string of its parent directory and
  by its final component: \<open>parent\<close> is \<^verbatim>\<open>str(p.parent)\<close>, \<open>name\<close> is \<^verbatim>\<open>p.name\<close>,
  and \<open>Path d n\<close> is \<^verbatim>\<open>Path(d) / Path(n)\<close>.
\<close>

datatype path = Path (parent: string) (name: string)

definition path_str :: "path \<Rightarrow> string" where
  "path_str p = (if parent p = ''/'' then ''/'' @ name p else parent p @ ''/'' @ name p)"

fun starts_with :: "string \<Rightarrow> string \<Rightarrow> bool" where
  "starts_with [] s = True"
| "starts_with (c # cs) [] = False"
| "starts_with (c # cs) (d # ds) = (c = d \<and> starts_with cs ds)"

text \<open>\<open>str_contains sub s\<close> is Python's \<^verbatim>\<open>sub in s\<close> on strings.\<close>

fun str_contains :: "string \<Rightarrow> string \<Rightarrow> bool" where
  "str_contains sub [] = (sub = [])"
| "str_contains sub (c # cs) = (starts_with sub (c # cs) \<or> str_contains sub cs)"

subsection \<open>Data model\<close>

type_synonym g1_element = string
type_synonym bytes32 = string

record stat_result =
  st_size :: nat
  st_mtime :: real

text \<open>
  The prover is consumed through \<^verbatim>\<open>get_size()\<close> (the k parameter) and
  \<^verbatim>\<open>get_filename()\<close>; the keys of its memo are what a cache entry is built from.
\<close>

record disk_prover =
  get_size :: nat
  get_filename :: path
  memo_farmer_public_key :: g1_element
  memo_pool_public_key :: "g1_element option"
  memo_pool_contract_puzzle_hash :: "bytes32 option"
  memo_plot_public_key :: g1_element

record cache_entry =
  prover :: disk_prover
  farmer_public_key :: g1_element
  pool_public_key :: "g1_element option"
  pool_contract_puzzle_hash :: "bytes32 option"
  plot_public_key :: g1_element
  last_use :: real

record plot_info =
  pi_prover :: disk_prover
  pi_pool_public_key :: "g1_element option"
  pi_pool_contract_puzzle_hash :: "bytes32 option"
  pi_plot_public_key :: g1_element
  pi_file_size :: nat
  pi_time_modified :: real

record plot_refresh_result =
  loaded :: "plot_info list"
  removed :: "path list"
  processed :: nat
  remaining :: nat
  duration :: real

definition PlotRefreshResult :: plot_refresh_result where
  "PlotRefreshResult = \<lparr>loaded = [], removed = [], processed = 0, remaining = 0, duration = 0\<rparr>"

datatype plot_refresh_events = started | batch_processed | done_event

type_synonym event = "plot_refresh_events \<times> plot_refresh_result"

text \<open>An instance of Python's \<^verbatim>\<open>Exception\<close>, the class the loop's handler names.\<close>

datatype py_exception = Exception string

record plots_refresh_parameter =
  interval_seconds :: nat
  retry_invalid_seconds :: nat
  batch_size :: nat

subsection \<open>The world outside the class\<close>

text \<open>
  One snapshot of what the manager can observe outside itself at one moment:
  \<^item> \<open>time_time\<close>: the value \<^verbatim>\<open>time.time()\<close> returns;
  \<^item> \<open>load_file\<close>: the Prover Adapter, \<^verbatim>\<open>None\<close> on any failure;
  \<^item> \<open>get_plot_filenames\<close>: the Path Enumerator (directory to candidate paths), which
    may raise;
  \<^item> \<open>callback_raises\<close>: whether the observer callback raises when called with an event;
  \<^item> \<open>flag_write\<close>: a write of another thread to \<^verbatim>\<open>_refreshing_enabled\<close> that
    lands at this moment (\<^verbatim>\<open>stop_refreshing\<close> writes \<open>False\<close>,
    \<^verbatim>\<open>start_refreshing\<close> writes \<open>True\<close>);
  \<^item> \<open>expected_plot_size\<close>, \<open>UI_ACTUAL_SPACE_CONSTANT_FACTOR\<close>: the names imported
    from \<^verbatim>\<open>chia.consensus.pos_quality\<close>, whose source is not among the sources,
    taken as parameters;
  \<^item> \<open>expiry_seconds\<close>: the constant \<^verbatim>\<open>Cache.expiry_seconds\<close>, a parameter likewise;
  \<^item> \<open>list_to_batches\<close>: the helper of \<^verbatim>\<open>chia.util.generator_tools\<close>, a
    parameter likewise: it yields pairs (remaining, batch) and may raise.
\<close>

record world =
  time_time :: real
  load_file :: "path \<Rightarrow> (stat_result \<times> disk_prover) option"
  get_plot_filenames :: "py_exception + (string \<times> path list) list"
  callback_raises :: "event \<Rightarrow> py_exception option"
  flag_write :: "bool option"
  expected_plot_size :: "nat \<Rightarrow> nat"
  UI_ACTUAL_SPACE_CONSTANT_FACTOR :: real
  expiry_seconds :: nat
  list_to_batches :: "path list \<Rightarrow> nat \<Rightarrow> py_exception + (nat \<times> path list) list"

type_synonym env = "nat \<Rightarrow> world"

subsection \<open>The cache store\<close>

text \<open>
  Modelled from the spec: class \<^verbatim>\<open>Cache\<close> and class \<^verbatim>\<open>CacheEntry\<close> of
  \<^verbatim>\<open>chia/plotting/cache.py\<close> are missing from the sources. Section 4.B of the
  specification gives the operations: \<^verbatim>\<open>get\<close> is a pure lookup, \<^verbatim>\<open>update\<close>
  inserts or overwrites and sets the dirty bit, \<^verbatim>\<open>remove\<close> deletes in bulk and sets
  the dirty bit if any deletion happened, \<^verbatim>\<open>save\<close> persists the current map and
  clears the dirty bit, \<^verbatim>\<open>changed\<close> reads the dirty bit. An entry is expired iff
  \<open>now - last_use > expiry_seconds\<close>; bumping sets \<open>last_use\<close> to now; a new entry is
  built from the prover by reading its keys, and its last use is the moment it is built.
\<close>

record cache_store =
  cache_data :: "(path \<times> cache_entry) list"
  cache_changed :: bool
  cache_file :: "(path \<times> cache_entry) list"

definition Cache_get :: "cache_store \<Rightarrow> path \<Rightarrow> cache_entry option" where
  "Cache_get c p = map_of (cache_data c) p"

definition Cache_update :: "cache_store \<Rightarrow> path \<Rightarrow> cache_entry \<Rightarrow> cache_store" where
  "Cache_update c p e = c\<lparr>cache_data := AList.update p e (cache_data c), cache_changed := True\<rparr>"

definition Cache_remove :: "cache_store \<Rightarrow> path list \<Rightarrow> cache_store" where
  "Cache_remove c ps =
     c\<lparr>cache_data := filter (\<lambda>(p, e). p \<notin> set ps) (cache_data c),
       cache_changed := (cache_changed c \<or> (\<exists>p \<in> set ps. p \<in> fst ` set (cache_data c)))\<rparr>"

definition Cache_save :: "cache_store \<Rightarrow> cache_store" where
  "Cache_save c = c\<lparr>cache_file := cache_data c, cache_changed := False\<rparr>"

definition expired :: "cache_entry \<Rightarrow> real \<Rightarrow> nat \<Rightarrow> bool" where
  "expired e now expiry = (now - last_use e > real expiry)"

definition bump_last_use :: "cache_entry \<Rightarrow> real \<Rightarrow> cache_entry" where
  "bump_last_use e now = e\<lparr>last_use := now\<rparr>"

definition from_disk_prover :: "disk_prover \<Rightarrow> real \<Rightarrow> cache_entry" where
  "from_disk_prover pr now =
     \<lparr>prover = pr,
      farmer_public_key = memo_farmer_public_key pr,
      pool_public_key = memo_pool_public_key pr,
      pool_contract_puzzle_hash = memo_pool_contract_puzzle_hash pr,
      plot_public_key = memo_plot_public_key pr,
      last_use = now\<rparr>"

subsection \<open>The manager\<close>

text \<open>
  The fields of \<^verbatim>\<open>PlotManager\<close> (the leading underscore of \<^verbatim>\<open>_initial\<close> and
  \<^verbatim>\<open>_refreshing_enabled\<close> is dropped; the locks, the logger, the thread handle and the
  callback, which is part of the world, are not fields of the record), and two fields of
  bookkeeping that the class does not have: \<open>steps\<close> counts the interactions with the
  world so far, and \<open>events\<close> records the calls of the observer callback in order.
\<close>

record manager =
  plots :: "(path \<times> plot_info) list"
  plot_filename_paths :: "(string \<times> string \<times> string list) list"
  failed_to_open_filenames :: "(path \<times> int) list"
  no_key_filenames :: "path set"
  farmer_public_keys :: "g1_element list"
  pool_public_keys :: "g1_element list"
  cache :: cache_store
  match_str :: "string option"
  open_no_key_filenames :: bool
  last_refresh_time :: real
  refresh_parameter :: plots_refresh_parameter
  refreshing_enabled :: bool
  initial :: bool
  steps :: nat
  events :: "event list"

definition py_int :: "real \<Rightarrow> int" where
  "py_int x = (if 0 \<le> x then \<lfloor>x\<rfloor> else \<lceil>x\<rceil>)"

definition reset :: "manager \<Rightarrow> world \<Rightarrow> manager" where
  "reset self w =
     self\<lparr>last_refresh_time := time_time w,
          plots := [],
          plot_filename_paths := [],
          failed_to_open_filenames := [],
          no_key_filenames := {},
          initial := True\<rparr>"

definition set_public_keys :: "manager \<Rightarrow> g1_element list \<Rightarrow> g1_element list \<Rightarrow> manager" where
  "set_public_keys self fpks ppks = self\<lparr>farmer_public_keys := fpks, pool_public_keys := ppks\<rparr>"

definition initial_refresh :: "manager \<Rightarrow> bool" where
  "initial_refresh self = initial self"

definition plot_count :: "manager \<Rightarrow> nat" where
  "plot_count self = length (plots self)"

definition get_duplicates :: "manager \<Rightarrow> path list" where
  "get_duplicates self =
     concat (map (\<lambda>(plot_filename, loaded_path, duplicated_paths).
                    map (\<lambda>d. Path d plot_filename) duplicated_paths)
                 (plot_filename_paths self))"

definition needs_refresh :: "manager \<Rightarrow> world \<Rightarrow> bool" where
  "needs_refresh self w =
     (time_time w - last_refresh_time self > real (interval_seconds (refresh_parameter self)))"

definition trigger_refresh :: "manager \<Rightarrow> manager" where
  "trigger_refresh self = self\<lparr>last_refresh_time := 0\<rparr>"

subsection \<open>The admission gate\<close>

definition processing_required :: "manager \<Rightarrow> world \<Rightarrow> path \<Rightarrow> bool" where
  "processing_required self w file_path =
     (if \<not> refreshing_enabled self then False
      else if (case match_str self of None \<Rightarrow> False
               | Some m \<Rightarrow> \<not> str_contains m (path_str file_path)) then False
      else if (case map_of (failed_to_open_filenames self) file_path of None \<Rightarrow> False
               | Some t \<Rightarrow> time_time w - real_of_int t
                            < real (retry_invalid_seconds (refresh_parameter self))) then False
      else if file_path \<in> fst ` set (plots self) then False
      else (case map_of (plot_filename_paths self) (name file_path) of
              None \<Rightarrow> True
            | Some (loaded_parent, duplicates) \<Rightarrow>
                if parent file_path \<in> set duplicates then False else True))"

subsection \<open>The per-file worker\<close>

text \<open>
  \<^verbatim>\<open>process_file\<close>, lines 259 to 332, in the order of the source. The stages
  after the cache lookup are definitions of their own: the key policy (lines 287 to 304),
  the registration with the deduplication index (lines 306 to 314) and the admission
  (lines 316 to 332). One call runs in one snapshot of the world: the clock readings of
  the call (the timestamp of a failure, the creation of a cache entry, the bump of its
  last use) are the same reading.

  The key policy: the first component is \<open>False\<close> where the source returns
  \<^verbatim>\<open>None\<close> (lines 293 and 299); the second is the manager at that point.
\<close>

definition key_policy :: "manager \<Rightarrow> path \<Rightarrow> cache_entry \<Rightarrow> bool \<times> manager" where
  "key_policy self file_path cache_entry =
     (let farmer_missing = (farmer_public_key cache_entry \<notin> set (farmer_public_keys self));
          self1 = (if farmer_missing
                   then self\<lparr>no_key_filenames := insert file_path (no_key_filenames self)\<rparr>
                   else self)
      in if farmer_missing \<and> \<not> open_no_key_filenames self1 then (False, self1)
         else
           (let pool_missing = (case pool_public_key cache_entry of None \<Rightarrow> False
                                | Some pk \<Rightarrow> pk \<notin> set (pool_public_keys self1));
                self2 = (if pool_missing
                         then self1\<lparr>no_key_filenames := insert file_path (no_key_filenames self1)\<rparr>
                         else self1)
            in if pool_missing \<and> \<not> open_no_key_filenames self2 then (False, self2)
               else (True, if file_path \<in> no_key_filenames self2
                           then self2\<lparr>no_key_filenames := no_key_filenames self2 - {file_path}\<rparr>
                           else self2)))"

definition register_filename ::
  "manager \<Rightarrow> path \<Rightarrow> cache_entry \<Rightarrow> bool \<times> manager" where
  "register_filename self file_path cache_entry =
     (let new_parent = parent (get_filename (prover cache_entry))
      in case map_of (plot_filename_paths self) (name file_path) of
           None \<Rightarrow>
             (True, self\<lparr>plot_filename_paths :=
                AList.update (name file_path) (new_parent, []) (plot_filename_paths self)\<rparr>)
         | Some (loaded_parent, duplicates) \<Rightarrow>
             (False, self\<lparr>plot_filename_paths :=
                AList.update (name file_path) (loaded_parent, List.insert new_parent duplicates)
                  (plot_filename_paths self)\<rparr>))"

definition admit :: "manager \<Rightarrow> world \<Rightarrow> path \<Rightarrow> stat_result \<Rightarrow> cache_entry
    \<Rightarrow> plot_info \<times> manager" where
  "admit self w file_path stat_info cache_entry =
     (let new_plot_info =
            \<lparr>pi_prover = prover cache_entry,
             pi_pool_public_key = pool_public_key cache_entry,
             pi_pool_contract_puzzle_hash = pool_contract_puzzle_hash cache_entry,
             pi_plot_public_key = plot_public_key cache_entry,
             pi_file_size = st_size stat_info,
             pi_time_modified = st_mtime stat_info\<rparr>;
          c = cache self;
          self1 = self\<lparr>cache := c\<lparr>cache_data :=
                    AList.update file_path (bump_last_use cache_entry (time_time w))
                      (cache_data c)\<rparr>\<rparr>;
          self2 = (if file_path \<in> fst ` set (failed_to_open_filenames self1)
                   then self1\<lparr>failed_to_open_filenames :=
                          AList.delete file_path (failed_to_open_filenames self1)\<rparr>
                   else self1)
      in (new_plot_info, self2))"

text \<open>Line 271, the check that the file has the size its k parameter demands.\<close>

definition assumed_being_copied :: "world \<Rightarrow> stat_result \<Rightarrow> disk_prover \<Rightarrow> bool" where
  "assumed_being_copied w stat_info prover' =
     (let expected_size =
            real (expected_plot_size w (get_size prover')) * UI_ACTUAL_SPACE_CONSTANT_FACTOR w
      in get_size prover' \<ge> 30 \<and> real (st_size stat_info) < 0.98 * expected_size)"

text \<open>Lines 278 to 332, what happens to a file that was opened and has its size.\<close>

definition process_loaded :: "manager \<Rightarrow> world \<Rightarrow> path \<Rightarrow> stat_result \<Rightarrow> disk_prover
    \<Rightarrow> plot_info option \<times> manager" where
  "process_loaded self w file_path stat_info prover' =
     (let cached = Cache_get (cache self) file_path;
          cache_hit = (cached \<noteq> None);
          cache_entry = (case cached of Some e \<Rightarrow> e | None \<Rightarrow> from_disk_prover prover' (time_time w));
          self1 = (if cache_hit then self
                   else self\<lparr>cache := Cache_update (cache self) file_path cache_entry\<rparr>)
      in case key_policy self1 file_path cache_entry of
           (False, self2) \<Rightarrow> (None, self2)
         | (True, self2) \<Rightarrow>
             (case register_filename self2 file_path cache_entry of
                (False, self3) \<Rightarrow> (None, self3)
              | (True, self3) \<Rightarrow>
                  (let (new_plot_info, self4) = admit self3 w file_path stat_info cache_entry
                   in (Some new_plot_info, self4))))"

definition process_file :: "manager \<Rightarrow> world \<Rightarrow> path \<Rightarrow> plot_info option \<times> manager" where
  "process_file self w file_path =
     (case load_file w file_path of
        None \<Rightarrow>
          (None, self\<lparr>failed_to_open_filenames :=
                   AList.update file_path (py_int (time_time w)) (failed_to_open_filenames self)\<rparr>)
      | Some (stat_info, prover') \<Rightarrow>
          if assumed_being_copied w stat_info prover' then (None, self)
          else process_loaded self w file_path stat_info prover')"

subsection \<open>Interaction with the world\<close>

text \<open>
  Every action of the loop that depends on the outside (reading the clock, reading
  \<^verbatim>\<open>_refreshing_enabled\<close>, which another thread may have written, opening a file,
  enumerating the directories, calling the observer or a helper of another module) takes
  the next snapshot: a pending write of another thread to the flag lands, and the step
  counter advances.
\<close>

definition env_step :: "env \<Rightarrow> manager \<Rightarrow> world \<times> manager" where
  "env_step env self =
     (let w = env (steps self)
      in (w, self\<lparr>refreshing_enabled :=
                     (case flag_write w of None \<Rightarrow> refreshing_enabled self | Some b \<Rightarrow> b),
                   steps := Suc (steps self)\<rparr>))"

text \<open>
  A call \<^verbatim>\<open>self._refresh_callback(kind, result)\<close>: the call is recorded, and the
  callback may raise.
\<close>

definition emit :: "env \<Rightarrow> manager \<Rightarrow> event \<Rightarrow> py_exception option \<times> manager" where
  "emit env self ev =
     (let (w, self1) = env_step env self
      in (callback_raises w ev, self1\<lparr>events := events self1 @ [ev]\<rparr>))"

subsection \<open>The batch processor\<close>

text \<open>
  \<^verbatim>\<open>process_batch\<close>, lines 334 to 356. The list comprehension applies the gate to
  every path of the batch before any file is processed. The worker pool
  (\<^verbatim>\<open>executor.map\<close>, which yields the results in the order of the paths) is run one
  file after the other in that order: of the interleavings of the workers, whose
  mutations all happen under the manager's lock, the embedding takes the sequential one.
\<close>

fun paths_to_process :: "env \<Rightarrow> manager \<Rightarrow> path list \<Rightarrow> path list \<times> manager" where
  "paths_to_process env self [] = ([], self)"
| "paths_to_process env self (p # ps) =
     (let (w, self1) = env_step env self;
          required = processing_required self1 w p;
          (rest, self2) = paths_to_process env self1 ps
      in (if required then p # rest else rest, self2))"

fun executor_map :: "env \<Rightarrow> manager \<Rightarrow> path list \<Rightarrow> plot_info list \<times> manager" where
  "executor_map env self [] = ([], self)"
| "executor_map env self (p # ps) =
     (let (w, self1) = env_step env self;
          (new_plot_info, self2) = process_file self1 w p;
          (rest, self3) = executor_map env self2 ps
      in (case new_plot_info of None \<Rightarrow> rest | Some i \<Rightarrow> i # rest, self3))"

definition dict_update :: "('k \<times> 'v) list \<Rightarrow> ('k \<times> 'v) list \<Rightarrow> ('k \<times> 'v) list" where
  "dict_update d other = fold (\<lambda>(k, v) acc. AList.update k v acc) other d"

definition process_batch :: "env \<Rightarrow> manager \<Rightarrow> path list \<Rightarrow> plot_refresh_result \<times> manager" where
  "process_batch env self plot_paths =
     (let (w0, self0) = env_step env self;
          start_time = time_time w0;
          (to_process, self1) = paths_to_process env self0 plot_paths;
          (new_plot_infos, self2) = executor_map env self1 to_process;
          plots_loaded = dict_update [] (map (\<lambda>i. (get_filename (pi_prover i), i)) new_plot_infos);
          self3 = self2\<lparr>plots := dict_update (plots self2) plots_loaded\<rparr>;
          (w1, self4) = env_step env self3;
          result = PlotRefreshResult\<lparr>processed := length plot_paths,
                                     loaded := new_plot_infos,
                                     duration := time_time w1 - start_time\<rparr>
      in (result, self4))"

subsection \<open>One refresh cycle\<close>

text \<open>
  Lines 162 to 185: walk the deduplication index; an entry whose primary file is no longer
  a candidate is dropped together with its live plot, otherwise the duplicate parents whose
  file is gone are pruned. The result is the new index, the new live plots and the list of
  removed paths.
\<close>

fun drop_missing :: "path list \<Rightarrow> (string \<times> string \<times> string list) list
    \<Rightarrow> (path \<times> plot_info) list \<Rightarrow> path list
    \<Rightarrow> (string \<times> string \<times> string list) list \<times> (path \<times> plot_info) list \<times> path list" where
  "drop_missing plot_paths [] live removed_paths = ([], live, removed_paths)"
| "drop_missing plot_paths ((plot_filename, loaded_path, duplicated_paths) # entries)
       live removed_paths =
     (let loaded_plot = Path loaded_path plot_filename
      in if loaded_plot \<notin> set plot_paths
         then drop_missing plot_paths entries (AList.delete loaded_plot live)
                (removed_paths @ [loaded_plot])
         else
           (let paths_to_remove =
                  filter (\<lambda>d. Path d plot_filename \<notin> set plot_paths) duplicated_paths;
                (index, live', removed_paths') =
                  drop_missing plot_paths entries live
                    (removed_paths @ map (\<lambda>d. Path d plot_filename) paths_to_remove)
            in ((plot_filename, loaded_path,
                 filter (\<lambda>d. d \<notin> set paths_to_remove) duplicated_paths) # index,
                live', removed_paths')))"

text \<open>
  Lines 143 to 187, up to the call of \<^verbatim>\<open>list_to_batches\<close>: enumerate, emit
  \<^verbatim>\<open>started\<close>, prune the failed-open table and the no-key set, reconcile the index.
  The result is the exception raised, or the initial totals and the batches.
\<close>

definition begin_cycle :: "env \<Rightarrow> manager
    \<Rightarrow> (py_exception + plot_refresh_result \<times> (nat \<times> path list) list) \<times> manager" where
  "begin_cycle env self =
     (let (w, self1) = env_step env self
      in case get_plot_filenames w of
           Inl e \<Rightarrow> (Inl e, self1)
         | Inr plot_filenames \<Rightarrow>
             (let plot_paths = concat (map snd plot_filenames);
                  total_size = length plot_paths
              in case emit env self1 (started, PlotRefreshResult\<lparr>remaining := total_size\<rparr>) of
                   (Some e, self2) \<Rightarrow> (Inl e, self2)
                 | (None, self2) \<Rightarrow>
                     (let self3 = self2\<lparr>failed_to_open_filenames :=
                            AList.restrict (set plot_paths) (failed_to_open_filenames self2)\<rparr>;
                          self4 = self3\<lparr>no_key_filenames :=
                            {p \<in> no_key_filenames self3. p \<in> set plot_paths}\<rparr>;
                          (index, live, removed_paths) =
                            drop_missing plot_paths (plot_filename_paths self4) (plots self4) [];
                          self5 = self4\<lparr>plot_filename_paths := index, plots := live\<rparr>;
                          total_result = PlotRefreshResult\<lparr>removed := removed_paths\<rparr>;
                          (w', self6) = env_step env self5
                      in case list_to_batches w' plot_paths
                                (batch_size (refresh_parameter self6)) of
                           Inl e \<Rightarrow> (Inl e, self6)
                         | Inr batches \<Rightarrow> (Inr (total_result, batches), self6))))"

text \<open>
  Lines 187 to 200, the loop over the batches. It ends because the batches are used up or
  \<^verbatim>\<open>remaining == 0\<close> (\<open>Exhausted\<close>), because the flag was found disabled after a
  batch (\<open>Aborted\<close>, line 191), or because the callback raised.
\<close>

datatype loop_exit = Exhausted | Aborted

fun refresh_batches :: "env \<Rightarrow> manager \<Rightarrow> plot_refresh_result \<Rightarrow> (nat \<times> path list) list
    \<Rightarrow> (py_exception + loop_exit \<times> plot_refresh_result) \<times> manager" where
  "refresh_batches env self total_result [] = (Inr (Exhausted, total_result), self)"
| "refresh_batches env self total_result ((remaining_files, batch) # batches) =
     (let (batch_result, self1) = process_batch env self batch;
          (w, self2) = env_step env self1
      in if \<not> refreshing_enabled self2 then (Inr (Aborted, total_result), self2)
         else
           (let batch_result' = batch_result\<lparr>remaining := remaining_files\<rparr>;
                total_result' = total_result
                  \<lparr>loaded := loaded total_result @ loaded batch_result',
                   processed := processed total_result + processed batch_result',
                   duration := duration total_result + duration batch_result'\<rparr>
            in case emit env self2 (batch_processed, batch_result') of
                 (Some e, self3) \<Rightarrow> (Inl e, self3)
               | (None, self3) \<Rightarrow>
                   if remaining_files = 0 then (Inr (Exhausted, total_result'), self3)
                   else refresh_batches env self3 total_result' batches))"

text \<open>Lines 210 to 215: the walk over \<^verbatim>\<open>self.cache.items()\<close>.\<close>

fun cache_sweep :: "env \<Rightarrow> manager \<Rightarrow> (path \<times> cache_entry) list \<Rightarrow> path list \<times> manager" where
  "cache_sweep env self [] = ([], self)"
| "cache_sweep env self ((p, cache_entry) # items) =
     (let (w, self1) = env_step env self
      in if expired cache_entry (time_time w) (expiry_seconds w)
            \<and> p \<notin> fst ` set (plots self1)
         then (let (remove_paths, self2) = cache_sweep env self1 items
               in (p # remove_paths, self2))
         else if p \<in> fst ` set (plots self1)
         then (let (w', self2) = env_step env self1;
                   c = cache self2;
                   self3 = self2\<lparr>cache := c\<lparr>cache_data :=
                             AList.update p (bump_last_use cache_entry (time_time w'))
                               (cache_data c)\<rparr>\<rparr>
               in cache_sweep env self3 items)
         else cache_sweep env self1 items)"

text \<open>Lines 205 to 222: what a cycle does after its events.\<close>

definition finish_cycle :: "env \<Rightarrow> manager \<Rightarrow> manager" where
  "finish_cycle env self =
     (let self1 = self\<lparr>initial := False\<rparr>;
          (remove_paths, self2) = cache_sweep env self1 (cache_data (cache self1));
          self3 = self2\<lparr>cache := Cache_remove (cache self2) remove_paths\<rparr>;
          self4 = (if cache_changed (cache self3)
                   then self3\<lparr>cache := Cache_save (cache self3)\<rparr> else self3);
          (w, self5) = env_step env self4
      in self5\<lparr>last_refresh_time := time_time w\<rparr>)"

text \<open>Lines 202 to 222.\<close>

definition end_cycle :: "env \<Rightarrow> manager \<Rightarrow> plot_refresh_result
    \<Rightarrow> py_exception option \<times> manager" where
  "end_cycle env self total_result =
     (let (w, self1) = env_step env self
      in case (if refreshing_enabled self1 then emit env self1 (done_event, total_result)
               else (None, self1)) of
           (Some e, self2) \<Rightarrow> (Some e, self2)
         | (None, self2) \<Rightarrow> (None, finish_cycle env self2))"

text \<open>
  The body of the \<^verbatim>\<open>try\<close> from line 143 on. The first component is the exception
  that left the body, if any.
\<close>

definition refresh_cycle :: "env \<Rightarrow> manager \<Rightarrow> py_exception option \<times> manager" where
  "refresh_cycle env self =
     (case begin_cycle env self of
        (Inl e, self1) \<Rightarrow> (Some e, self1)
      | (Inr (total_result, batches), self1) \<Rightarrow>
          (case refresh_batches env self1 total_result batches of
             (Inl e, self2) \<Rightarrow> (Some e, self2)
           | (Inr (exit, total_result'), self2) \<Rightarrow> end_cycle env self2 total_result'))"

subsection \<open>The refresh loop\<close>

text \<open>
  Line 137: poll until a refresh is due or the flag is disabled. The loop may poll for
  ever; \<open>None\<close> is that case.
\<close>

partial_function (option) wait_interval :: "env \<Rightarrow> manager \<Rightarrow> manager option" where
  "wait_interval env self =
     (let self1 = snd (env_step env self)
      in if needs_refresh self1 (fst (env_step env self)) then Some self1
         else (let self2 = snd (env_step env self1)
               in if refreshing_enabled self2 then wait_interval env self2 else Some self2))"

text \<open>The handler of lines 229 to 231: \<^verbatim>\<open>reset()\<close> reads the clock.\<close>

definition handle_exception :: "env \<Rightarrow> manager \<Rightarrow> manager" where
  "handle_exception env self = (let (w, self1) = env_step env self in reset self1 w)"

text \<open>
  \<^verbatim>\<open>_refresh_task\<close>, lines 134 to 231. The result is the manager when the thread
  function returns, \<open>None\<close> if it never does.
\<close>

partial_function (option) refresh_task :: "env \<Rightarrow> manager \<Rightarrow> manager option" where
  "refresh_task env self =
     (let self1 = snd (env_step env self)
      in if \<not> refreshing_enabled self1 then Some self1
         else
           (case wait_interval env self1 of
              None \<Rightarrow> None
            | Some self2 \<Rightarrow>
                (let self3 = snd (env_step env self2)
                 in if \<not> refreshing_enabled self3 then Some self3
                    else (case fst (refresh_cycle env self3) of
                            Some e \<Rightarrow>
                              refresh_task env (handle_exception env (snd (refresh_cycle env self3)))
                          | None \<Rightarrow> refresh_task env (snd (refresh_cycle env self3))))))"

subsection \<open>A concrete installation\<close>

text \<open>
  Modelled from the spec: \<^verbatim>\<open>list_to_batches\<close> of
  \<^verbatim>\<open>chia/util/generator_tools.py\<close> is missing from the sources. Step 6 of the cycle
  algorithm partitions the candidates into batches of at most \<open>batch_size\<close> paths, each
  with the number of paths that remain after it. It is used in the concrete worlds below
  only, with batch size 1; the theorems hold for every \<open>list_to_batches\<close>.
\<close>

function batches :: "nat \<Rightarrow> 'a list \<Rightarrow> (nat \<times> 'a list) list" where
  "batches n xs =
     (if n = 0 \<or> xs = [] then []
      else (length xs - n, take n xs) # batches n (drop n xs))"
  by pat_completeness auto
termination
  by (relation "measure (\<lambda>(n, xs). length xs)") auto

declare batches.simps [simp del]

text \<open>
  Scenario S1 of the specification: the plot \<^verbatim>\<open>/d1/a.plot\<close> with k = 32 and
  108 GiB, farmer key F1 and pool key P1; \<^verbatim>\<open>/d2/a.plot\<close> is a copy of it in a second
  directory (scenario S2).
\<close>

definition plot_a :: path where
  "plot_a = Path ''/d1'' ''a.plot''"

definition plot_a_copy :: path where
  "plot_a_copy = Path ''/d2'' ''a.plot''"

definition plot_b :: path where
  "plot_b = Path ''/d1'' ''b.plot''"

definition prover_at :: "path \<Rightarrow> disk_prover" where
  "prover_at p =
     \<lparr>get_size = 32, get_filename = p, memo_farmer_public_key = ''F1'',
      memo_pool_public_key = Some ''P1'', memo_pool_contract_puzzle_hash = None,
      memo_plot_public_key = ''K1''\<rparr>"

definition stat_a :: stat_result where
  "stat_a = \<lparr>st_size = 115964116992, st_mtime = 1000\<rparr>"

text \<open>Scenario S5: \<^verbatim>\<open>/d1/b.plot\<close> has half its expected size.\<close>

definition stat_b :: stat_result where
  "stat_b = \<lparr>st_size = 53182432542, st_mtime = 1500\<rparr>"

definition info_a :: plot_info where
  "info_a =
     \<lparr>pi_prover = prover_at plot_a, pi_pool_public_key = Some ''P1'',
      pi_pool_contract_puzzle_hash = None, pi_plot_public_key = ''K1'',
      pi_file_size = 115964116992, pi_time_modified = 1000\<rparr>"

definition world_at :: "real \<Rightarrow> (string \<times> path list) list \<Rightarrow> world" where
  "world_at now plot_filenames =
     \<lparr>time_time = now,
      load_file = (\<lambda>p. if p = plot_a \<or> p = plot_a_copy then Some (stat_a, prover_at p)
                       else if p = plot_b then Some (stat_b, prover_at p)
                       else None),
      get_plot_filenames = Inr plot_filenames,
      callback_raises = (\<lambda>ev. None),
      flag_write = None,
      expected_plot_size = (\<lambda>k. (2 * k + 1) * 2 ^ (k - 1)),
      UI_ACTUAL_SPACE_CONSTANT_FACTOR = 762 / 1000,
      expiry_seconds = 604800,
      list_to_batches = (\<lambda>ps n. Inr (batches n ps))\<rparr>"

text \<open>The manager as the constructor leaves it, with refreshing enabled.\<close>

definition new_manager :: "bool \<Rightarrow> manager" where
  "new_manager open_no_key =
     \<lparr>plots = [], plot_filename_paths = [], failed_to_open_filenames = [],
      no_key_filenames = {}, farmer_public_keys = [], pool_public_keys = [],
      cache = \<lparr>cache_data = [], cache_changed = False, cache_file = []\<rparr>,
      match_str = None, open_no_key_filenames = open_no_key, last_refresh_time = 0,
      refresh_parameter = \<lparr>interval_seconds = 120, retry_invalid_seconds = 1200, batch_size = 1\<rparr>,
      refreshing_enabled = True, initial = True, steps = 0, events = []\<rparr>"

text \<open>The manager after scenario S1: \<^verbatim>\<open>/d1/a.plot\<close> is admitted.\<close>

definition admitted_manager :: manager where
  "admitted_manager =
     (new_manager False)
       \<lparr>plots := [(plot_a, info_a)],
        plot_filename_paths := [(''a.plot'', ''/d1'', [])],
        farmer_public_keys := [''F1''], pool_public_keys := [''P1''],
        cache := \<lparr>cache_data = [(plot_a, from_disk_prover (prover_at plot_a) 1000)],
                  cache_changed = False,
                  cache_file = [(plot_a, from_disk_prover (prover_at plot_a) 1000)]\<rparr>,
        last_refresh_time := 1000, initial := False\<rparr>"

text \<open>
  A sequence of snapshots over the candidates \<^verbatim>\<open>/d1/a.plot\<close> and \<^verbatim>\<open>/d1/b.plot\<close>: the
  clock advances by a second per step, the observer raises on the event kinds of
  \<open>raise_on\<close>, and another thread calls \<^verbatim>\<open>stop_refreshing\<close> at step \<open>stop_at\<close>.
\<close>

definition example_env :: "plot_refresh_events list \<Rightarrow> nat \<Rightarrow> env" where
  "example_env raise_on stop_at =
     (\<lambda>n. (world_at (2000 + real n) [(''/d1'', [plot_a, plot_b])])
             \<lparr>callback_raises :=
                (\<lambda>ev. if fst ev \<in> set raise_on then Some (Exception ''observer failed'')
                       else None),
              flag_write := (if n = stop_at then Some False else None)\<rparr>)"

text \<open>The manager of a farmer with the keys F1 and P1 before its first cycle.\<close>

definition keyed_manager :: manager where
  "keyed_manager = (new_manager False)\<lparr>farmer_public_keys := [''F1''], pool_public_keys := [''P1'']\<rparr>"

subsection \<open>The order of the observer's events\<close>



lemmas worker_defs =
  process_file_def process_loaded_def assumed_being_copied_def key_policy_def
  register_filename_def admit_def Cache_get_def Cache_update_def from_disk_prover_def
  bump_last_use_def py_int_def Let_def

lemmas installation_defs =
  world_at_def new_manager_def admitted_manager_def plot_a_def plot_a_copy_def plot_b_def
  prover_at_def stat_a_def stat_b_def info_a_def example_env_def keyed_manager_def

lemmas cycle_defs =
  refresh_cycle_def begin_cycle_def end_cycle_def finish_cycle_def emit_def env_step_def
  process_batch_def dict_update_def processing_required_def Cache_remove_def Cache_save_def
  expired_def PlotRefreshResult_def set_public_keys_def plot_count_def batches.simps

section \<open>The admission gate\<close>

text \<open>
  Claim C7. A path of the failed-open table with recorded timestamp \<open>t\<close> is rejected by
  the admission gate at every moment strictly before \<open>t + retry_invalid_seconds\<close>: it
  is not retried during that time.
\<close>

theorem failed_open_backoff:
  assumes "map_of (failed_to_open_filenames self) file_path = Some t"
    and "time_time w < real_of_int t + real (retry_invalid_seconds (refresh_parameter self))"
  shows "\<not> processing_required self w file_path"
  using assms by (simp add: processing_required_def)

text \<open>
  In the concrete installation \<^verbatim>\<open>/d1/b.plot\<close> failed at time 1000 and the backoff is
  1200 seconds: the gate rejects it at 2199, and lets it through at 2200.
\<close>

theorem failed_open_backoff_witness:
  "map_of (failed_to_open_filenames
            (admitted_manager\<lparr>failed_to_open_filenames := [(plot_b, 1000)]\<rparr>)) plot_b = Some 1000
   \<and> time_time (world_at 2199 [(''/d1'', [plot_a, plot_b])])
       < real_of_int 1000 + real (retry_invalid_seconds (refresh_parameter
            (admitted_manager\<lparr>failed_to_open_filenames := [(plot_b, 1000)]\<rparr>)))
   \<and> \<not> processing_required (admitted_manager\<lparr>failed_to_open_filenames := [(plot_b, 1000)]\<rparr>)
          (world_at 2199 [(''/d1'', [plot_a, plot_b])]) plot_b
   \<and> processing_required (admitted_manager\<lparr>failed_to_open_filenames := [(plot_b, 1000)]\<rparr>)
        (world_at 2200 [(''/d1'', [plot_a, plot_b])]) plot_b"
proof -
  let ?m = "admitted_manager\<lparr>failed_to_open_filenames := [(plot_b, 1000)]\<rparr>"
  have h1: "map_of (failed_to_open_filenames ?m) plot_b = Some 1000"
    by simp
  have h2: "time_time (world_at 2199 [(''/d1'', [plot_a, plot_b])])
              < real_of_int 1000 + real (retry_invalid_seconds (refresh_parameter ?m))"
    by (simp add: installation_defs)
  have h3: "processing_required ?m (world_at 2200 [(''/d1'', [plot_a, plot_b])]) plot_b"
    by (simp add: processing_required_def installation_defs)
  show ?thesis
    using h1 h2 h3 failed_open_backoff [OF h1 h2] by simp
qed

text \<open>
  Claim C4, as amended. The gate rejects a candidate whose basename is in the
  deduplication index when the candidate's parent directory is already recorded in the
  entry's set of duplicate parents. (A parent that differs from the primary parent but is
  not yet recorded does not make the gate reject: the file goes on to
  \<^verbatim>\<open>process_file\<close>, which records it.)
\<close>

theorem gate_rejects_recorded_duplicate:
  assumes "map_of (plot_filename_paths self) (name file_path) = Some (loaded_parent, duplicates)"
    and "parent file_path \<in> set duplicates"
  shows "\<not> processing_required self w file_path"
  using assms by (simp add: processing_required_def)

theorem gate_rejects_recorded_duplicate_witness:
  "map_of (plot_filename_paths
            (admitted_manager\<lparr>plot_filename_paths := [(''a.plot'', ''/d1'', [''/d2''])]\<rparr>))
      (name plot_a_copy) = Some (''/d1'', [''/d2''])
   \<and> parent plot_a_copy \<in> set [''/d2'']
   \<and> \<not> processing_required
          (admitted_manager\<lparr>plot_filename_paths := [(''a.plot'', ''/d1'', [''/d2''])]\<rparr>)
          (world_at 2000 [(''/d1'', [plot_a]), (''/d2'', [plot_a_copy])]) plot_a_copy"
proof -
  let ?m = "admitted_manager\<lparr>plot_filename_paths := [(''a.plot'', ''/d1'', [''/d2''])]\<rparr>"
  have h1: "map_of (plot_filename_paths ?m) (name plot_a_copy) = Some (''/d1'', [''/d2''])"
    by (simp add: installation_defs)
  have h2: "parent plot_a_copy \<in> set [''/d2'']"
    by (simp add: installation_defs)
  show ?thesis
    using h1 h2 gate_rejects_recorded_duplicate [OF h1 h2] by simp
qed

text \<open>
  Claim C4 as stated fails: with \<^verbatim>\<open>/d1/a.plot\<close> admitted, the basename
  \<^verbatim>\<open>a.plot\<close> is in the index with primary parent \<^verbatim>\<open>/d1\<close>, and the gate returns
  true for \<^verbatim>\<open>/d2/a.plot\<close>.
\<close>

theorem gate_passes_unrecorded_duplicate:
  "map_of (plot_filename_paths admitted_manager) (name plot_a_copy) = Some (''/d1'', [])
   \<and> ''/d1'' \<noteq> parent plot_a_copy
   \<and> processing_required admitted_manager (world_at 2000 [(''/d1'', [plot_a]), (''/d2'', [plot_a_copy])]) plot_a_copy"
  by (simp add: processing_required_def installation_defs)

section \<open>The per-file worker\<close>

lemma key_policy_rejects_iff:
  "fst (key_policy self p ce) = False \<longleftrightarrow>
     \<not> open_no_key_filenames self \<and>
     (farmer_public_key ce \<notin> set (farmer_public_keys self) \<or>
      (\<exists>pk. pool_public_key ce = Some pk \<and> pk \<notin> set (pool_public_keys self)))"
  by (auto simp: key_policy_def Let_def split: option.splits)

lemma key_policy_rejected:
  "key_policy self p ce = (False, self2) \<Longrightarrow>
     self2 = self\<lparr>no_key_filenames := insert p (no_key_filenames self)\<rparr>"
  by (auto simp: key_policy_def Let_def split: option.splits if_splits)

lemma key_policy_passed:
  "key_policy self p ce = (True, self2) \<Longrightarrow>
     self2 = self\<lparr>no_key_filenames := no_key_filenames self - {p}\<rparr>"
  by (auto simp: key_policy_def Let_def split: option.splits if_splits)

lemma register_filename_seen:
  "map_of (plot_filename_paths self) (name p) = Some (loaded_parent, duplicates) \<Longrightarrow>
   register_filename self p ce =
     (False, self\<lparr>plot_filename_paths :=
        AList.update (name p)
          (loaded_parent, List.insert (parent (get_filename (prover ce))) duplicates)
          (plot_filename_paths self)\<rparr>)"
  by (simp add: register_filename_def)

lemma register_filename_unseen:
  "map_of (plot_filename_paths self) (name p) = None \<Longrightarrow>
   register_filename self p ce =
     (True, self\<lparr>plot_filename_paths :=
        AList.update (name p) (parent (get_filename (prover ce)), [])
          (plot_filename_paths self)\<rparr>)"
  by (simp add: register_filename_def)

lemma process_file_loaded:
  "load_file w p = Some (stat, pr) \<Longrightarrow> \<not> assumed_being_copied w stat pr \<Longrightarrow>
   process_file self w p = process_loaded self w p stat pr"
  by (simp add: process_file_def)

lemma process_loaded_stages:
  assumes "ce = (case Cache_get (cache self) p of Some e \<Rightarrow> e | None \<Rightarrow> from_disk_prover pr (time_time w))"
    and "self1 = (if Cache_get (cache self) p \<noteq> None then self
                  else self\<lparr>cache := Cache_update (cache self) p ce\<rparr>)"
  shows "process_loaded self w p stat pr =
     (case key_policy self1 p ce of
        (False, self2) \<Rightarrow> (None, self2)
      | (True, self2) \<Rightarrow>
          (case register_filename self2 p ce of
             (False, self3) \<Rightarrow> (None, self3)
           | (True, self3) \<Rightarrow>
               (Some (fst (admit self3 w p stat ce)), snd (admit self3 w p stat ce))))"
  unfolding process_loaded_def Let_def assms by (auto split: prod.splits bool.splits)



text \<open>
  Claim C2, as amended. Let the file parse and pass the size check, and let the farmer key
  of its cache entry, or its pool key when present, be missing from the allow-list.
  If \<^verbatim>\<open>open_no_key_filenames\<close> is false, \<^verbatim>\<open>process_file\<close> returns none and the
  path is in the no-key set afterwards. If \<^verbatim>\<open>open_no_key_filenames\<close> is true, the
  file goes on to the registration with the deduplication index: \<^verbatim>\<open>process_file\<close>
  returns none exactly when the basename is already in the index, and admits the file
  otherwise.
\<close>

theorem missing_key_policy:
  assumes "load_file w p = Some (stat, pr)"
    and "\<not> assumed_being_copied w stat pr"
    and "ce = (case Cache_get (cache self) p of Some e \<Rightarrow> e | None \<Rightarrow> from_disk_prover pr (time_time w))"
    and "farmer_public_key ce \<notin> set (farmer_public_keys self) \<or>
         (\<exists>pk. pool_public_key ce = Some pk \<and> pk \<notin> set (pool_public_keys self))"
  shows "(\<not> open_no_key_filenames self \<longrightarrow>
            fst (process_file self w p) = None
            \<and> p \<in> no_key_filenames (snd (process_file self w p)))
       \<and> (open_no_key_filenames self \<longrightarrow>
            (fst (process_file self w p) = None
               \<longleftrightarrow> map_of (plot_filename_paths self) (name p) \<noteq> None))"
proof -
  define self1 where "self1 = (if Cache_get (cache self) p \<noteq> None then self
                               else self\<lparr>cache := Cache_update (cache self) p ce\<rparr>)"
  have same: "farmer_public_keys self1 = farmer_public_keys self"
    "pool_public_keys self1 = pool_public_keys self"
    "open_no_key_filenames self1 = open_no_key_filenames self"
    "plot_filename_paths self1 = plot_filename_paths self"
    by (simp_all add: self1_def)
  note pf = process_file_loaded [OF assms(1,2), of self,
      unfolded process_loaded_stages [OF assms(3) self1_def]]
  obtain ok self2 where kp: "key_policy self1 p ce = (ok, self2)"
    by (cases "key_policy self1 p ce")
  have ok_iff: "ok \<longleftrightarrow> open_no_key_filenames self"
    using key_policy_rejects_iff [of self1 p ce] assms(4) kp same by auto
  show ?thesis
  proof (cases "open_no_key_filenames self")
    case False
    then have kp': "key_policy self1 p ce = (False, self2)"
      using kp ok_iff by simp
    have "p \<in> no_key_filenames self2"
      using key_policy_rejected [OF kp'] by simp
    then show ?thesis
      using False pf kp' by simp
  next
    case True
    then have kp': "key_policy self1 p ce = (True, self2)"
      using kp ok_iff by simp
    have idx: "plot_filename_paths self2 = plot_filename_paths self"
      using key_policy_passed [OF kp'] same by simp
    show ?thesis
    proof (cases "map_of (plot_filename_paths self) (name p)")
      case None
      then have "map_of (plot_filename_paths self2) (name p) = None"
        using idx by simp
      from register_filename_unseen [OF this]
      show ?thesis
        using True None pf kp' by simp
    next
      case (Some a)
      then obtain lp ds where "map_of (plot_filename_paths self2) (name p) = Some (lp, ds)"
        using idx by (cases a) simp
      from register_filename_seen [OF this]
      show ?thesis
        using True Some pf kp' by simp
    qed
  qed
qed

text \<open>
  With the allow-list F2 the plot of scenario S1 (farmer key F1) is rejected and lands in
  the no-key set when \<^verbatim>\<open>open_no_key_filenames\<close> is false, and is admitted when it is
  true.
\<close>

theorem missing_key_policy_witness:
  "farmer_public_key (from_disk_prover (prover_at plot_a) 2000) \<notin> set [''F2'']
   \<and> fst (process_file ((new_manager False)\<lparr>farmer_public_keys := [''F2''],
            pool_public_keys := [''P1'']\<rparr>) (world_at 2000 [(''/d1'', [plot_a])]) plot_a) = None
   \<and> plot_a \<in> no_key_filenames (snd (process_file ((new_manager False)
            \<lparr>farmer_public_keys := [''F2''], pool_public_keys := [''P1'']\<rparr>)
            (world_at 2000 [(''/d1'', [plot_a])]) plot_a))
   \<and> fst (process_file ((new_manager True)\<lparr>farmer_public_keys := [''F2''],
            pool_public_keys := [''P1'']\<rparr>) (world_at 2000 [(''/d1'', [plot_a])]) plot_a) \<noteq> None"
proof -
  let ?w = "world_at 2000 [(''/d1'', [plot_a])]"
  let ?closed = "(new_manager False)\<lparr>farmer_public_keys := [''F2''], pool_public_keys := [''P1'']\<rparr>"
  let ?opened = "(new_manager True)\<lparr>farmer_public_keys := [''F2''], pool_public_keys := [''P1'']\<rparr>"
  let ?ce = "from_disk_prover (prover_at plot_a) (time_time ?w)"
  have h1: "load_file ?w plot_a = Some (stat_a, prover_at plot_a)"
    by (simp add: installation_defs)
  have h2: "\<not> assumed_being_copied ?w stat_a (prover_at plot_a)"
    by (simp add: assumed_being_copied_def installation_defs)
  have h3: "?ce = (case Cache_get (cache ?closed) plot_a of Some e \<Rightarrow> e
                   | None \<Rightarrow> from_disk_prover (prover_at plot_a) (time_time ?w))"
    "?ce = (case Cache_get (cache ?opened) plot_a of Some e \<Rightarrow> e
            | None \<Rightarrow> from_disk_prover (prover_at plot_a) (time_time ?w))"
    by (simp_all add: Cache_get_def new_manager_def)
  have h4: "farmer_public_key ?ce \<notin> set [''F2'']"
    by (simp add: from_disk_prover_def prover_at_def)
  have h5: "farmer_public_key ?ce \<notin> set (farmer_public_keys ?closed) \<or>
            (\<exists>pk. pool_public_key ?ce = Some pk \<and> pk \<notin> set (pool_public_keys ?closed))"
    "farmer_public_key ?ce \<notin> set (farmer_public_keys ?opened) \<or>
     (\<exists>pk. pool_public_key ?ce = Some pk \<and> pk \<notin> set (pool_public_keys ?opened))"
    using h4 by simp_all
  show ?thesis
    using h4 missing_key_policy [OF h1 h2 h3(1) h5(1)] missing_key_policy [OF h1 h2 h3(2) h5(2)]
    by (simp add: new_manager_def world_at_def)
qed

text \<open>
  Claim C2 as stated fails twice when \<^verbatim>\<open>open_no_key_filenames\<close> is true and the
  farmer key is missing. A file whose basename is new is admitted, and the path is not in
  the no-key set after \<^verbatim>\<open>process_file\<close> returns (line 304 removes what line 291
  added). A file whose basename is already in the index is not admitted:
  \<^verbatim>\<open>process_file\<close> returns none although the flag is true.
\<close>

theorem missing_key_open_counterexample:
  "farmer_public_key (from_disk_prover (prover_at plot_a) 2000) \<notin> set [''F2'']
   \<and> fst (process_file ((new_manager True)\<lparr>farmer_public_keys := [''F2''],
            pool_public_keys := [''P1'']\<rparr>) (world_at 2000 [(''/d1'', [plot_a])]) plot_a) = Some info_a
   \<and> plot_a \<notin> no_key_filenames (snd (process_file ((new_manager True)
            \<lparr>farmer_public_keys := [''F2''], pool_public_keys := [''P1'']\<rparr>)
            (world_at 2000 [(''/d1'', [plot_a])]) plot_a))
   \<and> open_no_key_filenames (admitted_manager\<lparr>open_no_key_filenames := True,
            farmer_public_keys := [''F2'']\<rparr>)
   \<and> fst (process_file (admitted_manager\<lparr>open_no_key_filenames := True,
            farmer_public_keys := [''F2'']\<rparr>) (world_at 2000 [(''/d1'', [plot_a]), (''/d2'', [plot_a_copy])]) plot_a_copy)
       = None"
  by (simp add: worker_defs installation_defs)

text \<open>
  Claim C5, as amended. When a file reaches the registration with the deduplication index
  and its basename is already present, \<^verbatim>\<open>process_file\<close> returns none (Duplicate), the
  primary parent stays, and the parent directory of the prover's file name is added to the
  set of duplicate parents, also when it equals the primary parent. The set is left
  unchanged when that parent is already in it.
\<close>

theorem register_seen_basename:
  assumes "load_file w p = Some (stat, pr)"
    and "\<not> assumed_being_copied w stat pr"
    and "ce = (case Cache_get (cache self) p of Some e \<Rightarrow> e | None \<Rightarrow> from_disk_prover pr (time_time w))"
    and "open_no_key_filenames self \<or>
         (farmer_public_key ce \<in> set (farmer_public_keys self) \<and>
          (\<forall>pk. pool_public_key ce = Some pk \<longrightarrow> pk \<in> set (pool_public_keys self)))"
    and "map_of (plot_filename_paths self) (name p) = Some (primary, dups)"
    and "d = parent (get_filename (prover ce))"
  shows "fst (process_file self w p) = None
       \<and> plot_filename_paths (snd (process_file self w p)) =
           AList.update (name p) (primary, List.insert d dups) (plot_filename_paths self)
       \<and> (d \<in> set dups \<longrightarrow>
            plot_filename_paths (snd (process_file self w p)) = plot_filename_paths self)"
proof -
  define self1 where "self1 = (if Cache_get (cache self) p \<noteq> None then self
                               else self\<lparr>cache := Cache_update (cache self) p ce\<rparr>)"
  have same: "farmer_public_keys self1 = farmer_public_keys self"
    "pool_public_keys self1 = pool_public_keys self"
    "open_no_key_filenames self1 = open_no_key_filenames self"
    "plot_filename_paths self1 = plot_filename_paths self"
    by (simp_all add: self1_def)
  obtain ok self2 where kp: "key_policy self1 p ce = (ok, self2)"
    by (cases "key_policy self1 p ce")
  have "ok"
    using key_policy_rejects_iff [of self1 p ce] assms(4) kp same by auto
  then have kp': "key_policy self1 p ce = (True, self2)"
    using kp by simp
  have idx: "plot_filename_paths self2 = plot_filename_paths self"
    using key_policy_passed [OF kp'] same by simp
  then have "map_of (plot_filename_paths self2) (name p) = Some (primary, dups)"
    using assms(5) by simp
  from register_filename_seen [OF this, of ce]
  have pf: "process_file self w p =
     (None, self2\<lparr>plot_filename_paths :=
        AList.update (name p) (primary, List.insert d dups) (plot_filename_paths self2)\<rparr>)"
    unfolding process_file_loaded [OF assms(1,2)]
      process_loaded_stages [OF assms(3) self1_def] kp' assms(6) by simp
  have "d \<in> set dups \<Longrightarrow>
        AList.update (name p) (primary, List.insert d dups) (plot_filename_paths self)
          = plot_filename_paths self"
    using assms(5) by (simp add: AList.update_triv)
  then show ?thesis
    using pf idx by simp
qed

text \<open>
  Scenario S2: with \<^verbatim>\<open>/d1/a.plot\<close> admitted, processing \<^verbatim>\<open>/d2/a.plot\<close> returns
  none and records \<^verbatim>\<open>/d2\<close> as a duplicate parent.
\<close>

theorem register_seen_basename_witness:
  "map_of (plot_filename_paths admitted_manager) (name plot_a_copy) = Some (''/d1'', [])
   \<and> fst (process_file admitted_manager (world_at 2000 [(''/d1'', [plot_a]), (''/d2'', [plot_a_copy])]) plot_a_copy) = None
   \<and> plot_filename_paths
        (snd (process_file admitted_manager (world_at 2000 [(''/d1'', [plot_a]), (''/d2'', [plot_a_copy])]) plot_a_copy))
       = [(''a.plot'', ''/d1'', [''/d2''])]"
proof -
  let ?w = "world_at 2000 [(''/d1'', [plot_a]), (''/d2'', [plot_a_copy])]"
  let ?ce = "from_disk_prover (prover_at plot_a_copy) (time_time ?w)"
  have h1: "load_file ?w plot_a_copy = Some (stat_a, prover_at plot_a_copy)"
    by (simp add: installation_defs)
  have h2: "\<not> assumed_being_copied ?w stat_a (prover_at plot_a_copy)"
    by (simp add: assumed_being_copied_def installation_defs)
  have h3: "?ce = (case Cache_get (cache admitted_manager) plot_a_copy of Some e \<Rightarrow> e
                   | None \<Rightarrow> from_disk_prover (prover_at plot_a_copy) (time_time ?w))"
    by (simp add: Cache_get_def installation_defs)
  have h4: "open_no_key_filenames admitted_manager \<or>
         (farmer_public_key ?ce \<in> set (farmer_public_keys admitted_manager) \<and>
          (\<forall>pk. pool_public_key ?ce = Some pk \<longrightarrow> pk \<in> set (pool_public_keys admitted_manager)))"
    by (simp add: from_disk_prover_def installation_defs)
  have h5: "map_of (plot_filename_paths admitted_manager) (name plot_a_copy) = Some (''/d1'', [])"
    by (simp add: installation_defs)
  have h6: "''/d2'' = parent (get_filename (prover ?ce))"
    by (simp add: from_disk_prover_def installation_defs)
  show ?thesis
    using h5 register_seen_basename [OF h1 h2 h3 h4 h5 h6]
    by (simp add: installation_defs)
qed

text \<open>
  Claim C5 as stated fails where the parent equals the primary parent: processing
  \<^verbatim>\<open>/d1/a.plot\<close> while \<^verbatim>\<open>a.plot\<close> is registered with primary parent \<^verbatim>\<open>/d1\<close>
  and no duplicates puts \<^verbatim>\<open>/d1\<close> into the set of duplicate parents.
\<close>

theorem register_primary_parent_counterexample:
  "map_of (plot_filename_paths admitted_manager) (name plot_a) = Some (parent plot_a, [])
   \<and> fst (process_file admitted_manager (world_at 2000 [(''/d1'', [plot_a])]) plot_a) = None
   \<and> map_of (plot_filename_paths
               (snd (process_file admitted_manager (world_at 2000 [(''/d1'', [plot_a])]) plot_a)))
        (name plot_a)
       = Some (parent plot_a, [parent plot_a])"
  by (simp add: worker_defs installation_defs)

text \<open>
  Claim C10. For a file that parses, passes the size check and is a cache miss,
  \<^verbatim>\<open>process_file\<close> leaves an entry for the path in the cache whatever it returns. When
  it returns none (key policy or duplicate basename), the entry is the one built from the
  prover, and the manager differs from the one before the call only by that cache update,
  the no-key set and the deduplication index.
\<close>

theorem cache_miss_entry_survives_rejection:
  assumes "load_file w p = Some (stat, pr)"
    and "\<not> assumed_being_copied w stat pr"
    and "Cache_get (cache self) p = None"
    and "process_file self w p = (r, self')"
  shows "Cache_get (cache self') p \<noteq> None
       \<and> (r = None \<longrightarrow>
            Cache_get (cache self') p = Some (from_disk_prover pr (time_time w)) \<and>
            self' = self\<lparr>cache := Cache_update (cache self) p (from_disk_prover pr (time_time w)),
                         no_key_filenames := no_key_filenames self',
                         plot_filename_paths := plot_filename_paths self'\<rparr>)"
proof -
  define ce where "ce = from_disk_prover pr (time_time w)"
  define self1 where "self1 = self\<lparr>cache := Cache_update (cache self) p ce\<rparr>"
  have ce: "ce = (case Cache_get (cache self) p of Some e \<Rightarrow> e | None \<Rightarrow> from_disk_prover pr (time_time w))"
    using assms(3) by (simp add: ce_def)
  have s1: "self1 = (if Cache_get (cache self) p \<noteq> None then self
                     else self\<lparr>cache := Cache_update (cache self) p ce\<rparr>)"
    using assms(3) by (simp add: self1_def)
  have got: "Cache_get (cache self1) p = Some ce"
    by (simp add: self1_def Cache_get_def Cache_update_def AList.update_conv')
  note pf = assms(4) [unfolded process_file_loaded [OF assms(1,2)]
      process_loaded_stages [OF ce s1]]
  obtain ok self2 where kp: "key_policy self1 p ce = (ok, self2)"
    by (cases "key_policy self1 p ce")
  show ?thesis
  proof (cases ok)
    case False
    then have kp': "key_policy self1 p ce = (False, self2)"
      using kp by simp
    from pf kp' have "r = None" "self' = self2"
      by simp_all
    then show ?thesis
      using key_policy_rejected [OF kp'] got by (simp add: self1_def ce_def)
  next
    case True
    then have kp': "key_policy self1 p ce = (True, self2)"
      using kp by simp
    note s2 = key_policy_passed [OF kp']
    obtain fresh self3 where rf: "register_filename self2 p ce = (fresh, self3)"
      by (cases "register_filename self2 p ce")
    obtain idx3 where s3: "self3 = self2\<lparr>plot_filename_paths := idx3\<rparr>"
      using rf by (auto simp: register_filename_def Let_def split: option.splits)
    show ?thesis
    proof (cases fresh)
      case False
      with pf kp' rf have "r = None" "self' = self3"
        by simp_all
      then show ?thesis
        using s3 s2 got by (simp add: self1_def ce_def)
    next
      case True
      with pf kp' rf have r: "r \<noteq> None" "self' = snd (admit self3 w p stat ce)"
        by auto
      have "Cache_get (cache (snd (admit self3 w p stat ce))) p \<noteq> None"
        by (simp add: admit_def Let_def Cache_get_def AList.update_conv')
      then show ?thesis
        using r by auto
    qed
  qed
qed

text \<open>
  The plot of scenario S1 against the allow-list F2, from an empty cache: rejected, the
  new entry is in the cache, the live plots and the failed-open table are as before.
\<close>

theorem cache_miss_entry_survives_rejection_witness:
  "Cache_get (cache ((new_manager False)\<lparr>farmer_public_keys := [''F2''],
       pool_public_keys := [''P1'']\<rparr>)) plot_a = None
   \<and> process_file ((new_manager False)\<lparr>farmer_public_keys := [''F2''],
       pool_public_keys := [''P1'']\<rparr>) (world_at 2000 [(''/d1'', [plot_a])]) plot_a
      = (None, (new_manager False)\<lparr>farmer_public_keys := [''F2''], pool_public_keys := [''P1''],
           cache := \<lparr>cache_data = [(plot_a, from_disk_prover (prover_at plot_a) 2000)],
                     cache_changed = True, cache_file = []\<rparr>,
           no_key_filenames := {plot_a}\<rparr>)
   \<and> Cache_get (cache (snd (process_file ((new_manager False)\<lparr>farmer_public_keys := [''F2''],
       pool_public_keys := [''P1'']\<rparr>) (world_at 2000 [(''/d1'', [plot_a])]) plot_a))) plot_a
      = Some (from_disk_prover (prover_at plot_a) 2000)"
proof -
  let ?w = "world_at 2000 [(''/d1'', [plot_a])]"
  let ?m = "(new_manager False)\<lparr>farmer_public_keys := [''F2''], pool_public_keys := [''P1'']\<rparr>"
  let ?m' = "?m\<lparr>cache := \<lparr>cache_data = [(plot_a, from_disk_prover (prover_at plot_a) 2000)],
                     cache_changed = True, cache_file = []\<rparr>,
           no_key_filenames := {plot_a}\<rparr>"
  have h1: "load_file ?w plot_a = Some (stat_a, prover_at plot_a)"
    by (simp add: installation_defs)
  have h2: "\<not> assumed_being_copied ?w stat_a (prover_at plot_a)"
    by (simp add: assumed_being_copied_def installation_defs)
  have h3: "Cache_get (cache ?m) plot_a = None"
    by (simp add: Cache_get_def new_manager_def)
  have h4: "process_file ?m ?w plot_a = (None, ?m')"
    by (simp add: worker_defs installation_defs)
  show ?thesis
    using h3 h4 cache_miss_entry_survives_rejection [OF h1 h2 h3 h4]
    by (simp add: Cache_get_def Cache_update_def new_manager_def)
qed

section \<open>The refresh cycle\<close>

subsection \<open>What each stage leaves alone\<close>

lemma env_step_simps [simp]:
  "fst (env_step env s) = env (steps s)"
  "steps (snd (env_step env s)) = Suc (steps s)"
  "refreshing_enabled (snd (env_step env s)) =
     (case flag_write (env (steps s)) of None \<Rightarrow> refreshing_enabled s | Some b \<Rightarrow> b)"
  "plots (snd (env_step env s)) = plots s"
  "plot_filename_paths (snd (env_step env s)) = plot_filename_paths s"
  "failed_to_open_filenames (snd (env_step env s)) = failed_to_open_filenames s"
  "no_key_filenames (snd (env_step env s)) = no_key_filenames s"
  "farmer_public_keys (snd (env_step env s)) = farmer_public_keys s"
  "pool_public_keys (snd (env_step env s)) = pool_public_keys s"
  "cache (snd (env_step env s)) = cache s"
  "match_str (snd (env_step env s)) = match_str s"
  "open_no_key_filenames (snd (env_step env s)) = open_no_key_filenames s"
  "last_refresh_time (snd (env_step env s)) = last_refresh_time s"
  "refresh_parameter (snd (env_step env s)) = refresh_parameter s"
  "initial (snd (env_step env s)) = initial s"
  "events (snd (env_step env s)) = events s"
  by (simp_all add: env_step_def Let_def)

lemma emit_simps [simp]:
  "fst (emit env s ev) = callback_raises (env (steps s)) ev"
  "events (snd (emit env s ev)) = events s @ [ev]"
  "steps (snd (emit env s ev)) = Suc (steps s)"
  "plots (snd (emit env s ev)) = plots s"
  "no_key_filenames (snd (emit env s ev)) = no_key_filenames s"
  "cache (snd (emit env s ev)) = cache s"
  "initial (snd (emit env s ev)) = initial s"
  by (simp_all add: emit_def Let_def case_prod_beta)



lemma key_policy_fields [simp]:
  "plots (snd (key_policy s p ce)) = plots s"
  "plot_filename_paths (snd (key_policy s p ce)) = plot_filename_paths s"
  "failed_to_open_filenames (snd (key_policy s p ce)) = failed_to_open_filenames s"
  "cache (snd (key_policy s p ce)) = cache s"
  "refreshing_enabled (snd (key_policy s p ce)) = refreshing_enabled s"
  "initial (snd (key_policy s p ce)) = initial s"
  "steps (snd (key_policy s p ce)) = steps s"
  "events (snd (key_policy s p ce)) = events s"
  "last_refresh_time (snd (key_policy s p ce)) = last_refresh_time s"
  by (simp_all add: key_policy_def Let_def split: option.splits)

lemma key_policy_no_key:
  "no_key_filenames (snd (key_policy s p ce)) = insert p (no_key_filenames s)
   \<or> no_key_filenames (snd (key_policy s p ce)) = no_key_filenames s - {p}"
  by (auto simp: key_policy_def Let_def split: option.splits)

lemma register_filename_fields [simp]:
  "plots (snd (register_filename s p ce)) = plots s"
  "no_key_filenames (snd (register_filename s p ce)) = no_key_filenames s"
  "failed_to_open_filenames (snd (register_filename s p ce)) = failed_to_open_filenames s"
  "cache (snd (register_filename s p ce)) = cache s"
  "refreshing_enabled (snd (register_filename s p ce)) = refreshing_enabled s"
  "initial (snd (register_filename s p ce)) = initial s"
  "steps (snd (register_filename s p ce)) = steps s"
  "events (snd (register_filename s p ce)) = events s"
  "last_refresh_time (snd (register_filename s p ce)) = last_refresh_time s"
  by (simp_all add: register_filename_def Let_def split: option.splits)

lemma admit_fields [simp]:
  "plots (snd (admit s w p st ce)) = plots s"
  "no_key_filenames (snd (admit s w p st ce)) = no_key_filenames s"
  "plot_filename_paths (snd (admit s w p st ce)) = plot_filename_paths s"
  "refreshing_enabled (snd (admit s w p st ce)) = refreshing_enabled s"
  "initial (snd (admit s w p st ce)) = initial s"
  "steps (snd (admit s w p st ce)) = steps s"
  "events (snd (admit s w p st ce)) = events s"
  "last_refresh_time (snd (admit s w p st ce)) = last_refresh_time s"
  by (simp_all add: admit_def Let_def)

lemma process_loaded_if:
  "process_loaded s w p st pr =
     (let ce = (case Cache_get (cache s) p of Some e \<Rightarrow> e | None \<Rightarrow> from_disk_prover pr (time_time w));
          s1 = (if Cache_get (cache s) p \<noteq> None then s
                else s\<lparr>cache := Cache_update (cache s) p ce\<rparr>);
          s2 = snd (key_policy s1 p ce);
          s3 = snd (register_filename s2 p ce)
      in if \<not> fst (key_policy s1 p ce) then (None, s2)
         else if \<not> fst (register_filename s2 p ce) then (None, s3)
         else (Some (fst (admit s3 w p st ce)), snd (admit s3 w p st ce)))"
  unfolding process_loaded_def Let_def by (auto split: prod.splits bool.splits)

lemma process_loaded_fields [simp]:
  "plots (snd (process_loaded s w p st pr)) = plots s"
  "refreshing_enabled (snd (process_loaded s w p st pr)) = refreshing_enabled s"
  "initial (snd (process_loaded s w p st pr)) = initial s"
  "steps (snd (process_loaded s w p st pr)) = steps s"
  "events (snd (process_loaded s w p st pr)) = events s"
  "last_refresh_time (snd (process_loaded s w p st pr)) = last_refresh_time s"
  by (simp_all add: process_loaded_if Let_def)

lemma process_loaded_no_key:
  "no_key_filenames (snd (process_loaded s w p st pr)) = insert p (no_key_filenames s)
   \<or> no_key_filenames (snd (process_loaded s w p st pr)) = no_key_filenames s - {p}"
proof -
  define ce where "ce = (case Cache_get (cache s) p of Some e \<Rightarrow> e | None \<Rightarrow> from_disk_prover pr (time_time w))"
  define s1 where "s1 = (if Cache_get (cache s) p \<noteq> None then s
                else s\<lparr>cache := Cache_update (cache s) p ce\<rparr>)"
  have "no_key_filenames s1 = no_key_filenames s" by (simp add: s1_def)
  moreover have "no_key_filenames (snd (process_loaded s w p st pr))
      = no_key_filenames (snd (key_policy s1 p ce))"
    unfolding process_loaded_if Let_def ce_def s1_def by simp
  ultimately show ?thesis
    using key_policy_no_key [of s1 p ce] by simp
qed

lemma process_file_fields [simp]:
  "plots (snd (process_file s w p)) = plots s"
  "refreshing_enabled (snd (process_file s w p)) = refreshing_enabled s"
  "initial (snd (process_file s w p)) = initial s"
  "steps (snd (process_file s w p)) = steps s"
  "events (snd (process_file s w p)) = events s"
  "last_refresh_time (snd (process_file s w p)) = last_refresh_time s"
  by (simp_all add: process_file_def split: option.splits)

lemma process_file_no_key_other:
  "q \<noteq> p \<Longrightarrow> q \<in> no_key_filenames (snd (process_file s w p)) \<longleftrightarrow> q \<in> no_key_filenames s"
  using process_loaded_no_key [of s w p]
  by (auto simp: process_file_def split: option.splits)


lemma paths_to_process_fields [simp]:
  "plots (snd (paths_to_process env s ps)) = plots s"
  "no_key_filenames (snd (paths_to_process env s ps)) = no_key_filenames s"
  "events (snd (paths_to_process env s ps)) = events s"
  "initial (snd (paths_to_process env s ps)) = initial s"
  by (induction ps arbitrary: s) (simp_all add: case_prod_beta Let_def)

lemma paths_to_process_skips_live:
  "p \<in> fst ` set (plots s) \<Longrightarrow> p \<notin> set (fst (paths_to_process env s ps))"
  by (induction ps arbitrary: s)
    (auto simp: case_prod_beta Let_def processing_required_def)

lemma executor_map_fields [simp]:
  "plots (snd (executor_map env s ps)) = plots s"
  "events (snd (executor_map env s ps)) = events s"
  "initial (snd (executor_map env s ps)) = initial s"
  by (induction ps arbitrary: s) (simp_all add: case_prod_beta Let_def)

lemma executor_map_no_key_other:
  "q \<notin> set ps \<Longrightarrow>
   q \<in> no_key_filenames (snd (executor_map env s ps)) \<longleftrightarrow> q \<in> no_key_filenames s"
  by (induction ps arbitrary: s)
    (simp_all add: case_prod_beta Let_def process_file_no_key_other)

lemma dict_update_keys:
  "fst ` set (dict_update d other) = fst ` set d \<union> fst ` set other"
  unfolding dict_update_def
  by (induction other arbitrary: d) (auto simp: AList.dom_update case_prod_beta)

lemma process_batch_fields [simp]:
  "events (snd (process_batch env s ps)) = events s"
  "initial (snd (process_batch env s ps)) = initial s"
  by (simp_all add: process_batch_def case_prod_beta Let_def)

lemma process_batch_keeps_live:
  "p \<in> fst ` set (plots s) \<Longrightarrow> p \<in> fst ` set (plots (snd (process_batch env s ps)))"
  by (simp add: process_batch_def case_prod_beta Let_def dict_update_keys)

lemma process_batch_no_key_live:
  assumes "p \<in> fst ` set (plots s)"
  shows "p \<in> no_key_filenames (snd (process_batch env s ps)) \<longleftrightarrow> p \<in> no_key_filenames s"
proof -
  have "p \<notin> set (fst (paths_to_process env (snd (env_step env s)) ps))"
    using assms by (simp add: paths_to_process_skips_live)
  then show ?thesis
    by (simp add: process_batch_def case_prod_beta Let_def executor_map_no_key_other)
qed


lemma refresh_batches_Cons:
  assumes "br' = (fst (process_batch env s b))\<lparr>remaining := r\<rparr>"
    and "s2 = snd (env_step env (snd (process_batch env s b)))"
    and "t' = t\<lparr>loaded := loaded t @ loaded br', processed := processed t + processed br',
                 duration := duration t + duration br'\<rparr>"
    and "s3 = snd (emit env s2 (batch_processed, br'))"
  shows "refresh_batches env s t ((r, b) # bs) =
     (if \<not> refreshing_enabled s2 then (Inr (Aborted, t), s2)
      else (case fst (emit env s2 (batch_processed, br')) of
              Some e \<Rightarrow> (Inl e, s3)
            | None \<Rightarrow> if r = 0 then (Inr (Exhausted, t'), s3)
                      else refresh_batches env s3 t' bs))"
  unfolding assms by (simp add: case_prod_beta Let_def split: prod.splits option.splits)



lemma refresh_batches_keeps_live:
  "p \<in> fst ` set (plots s) \<Longrightarrow>
   p \<in> fst ` set (plots (snd (refresh_batches env s t bs)))
   \<and> (p \<in> no_key_filenames (snd (refresh_batches env s t bs)) \<longleftrightarrow> p \<in> no_key_filenames s)"
proof (induction bs arbitrary: s t)
  case Nil
  then show ?case by simp
next
  case (Cons rb bs)
  obtain r b where rb: "rb = (r, b)" by (cases rb)
  define br' where "br' = (fst (process_batch env s b))\<lparr>remaining := r\<rparr>"
  define s2 where "s2 = snd (env_step env (snd (process_batch env s b)))"
  define t' where "t' = t\<lparr>loaded := loaded t @ loaded br', processed := processed t + processed br',
                 duration := duration t + duration br'\<rparr>"
  define s3 where "s3 = snd (emit env s2 (batch_processed, br'))"
  note unfold = refresh_batches_Cons [OF br'_def s2_def t'_def s3_def]
  have l2: "p \<in> fst ` set (plots s2)" "p \<in> no_key_filenames s2 \<longleftrightarrow> p \<in> no_key_filenames s"
    using Cons.prems by (simp_all add: s2_def process_batch_keeps_live process_batch_no_key_live)
  then have l3: "p \<in> fst ` set (plots s3)" "p \<in> no_key_filenames s3 \<longleftrightarrow> p \<in> no_key_filenames s"
    by (simp_all add: s3_def)
  from Cons.IH [OF l3(1), of t'] l2 l3 show ?case
    unfolding rb unfold by (simp split: option.splits)
qed


lemma cache_sweep_Cons:
  "cache_sweep env s ((p, e) # items) =
     (let w = env (steps s);
          s1 = snd (env_step env s);
          s2 = snd (env_step env s1);
          s3 = s2\<lparr>cache := (cache s2)\<lparr>cache_data :=
                  AList.update p (bump_last_use e (time_time (env (steps s1))))
                    (cache_data (cache s2))\<rparr>\<rparr>
      in if expired e (time_time w) (expiry_seconds w) \<and> p \<notin> fst ` set (plots s)
         then (p # fst (cache_sweep env s1 items), snd (cache_sweep env s1 items))
         else if p \<in> fst ` set (plots s) then cache_sweep env s3 items
         else cache_sweep env s1 items)"
  by (simp add: case_prod_beta Let_def)

lemma cache_sweep_frame:
  "plots (snd (cache_sweep env s items)) = plots s
   \<and> no_key_filenames (snd (cache_sweep env s items)) = no_key_filenames s
   \<and> events (snd (cache_sweep env s items)) = events s
   \<and> initial (snd (cache_sweep env s items)) = initial s
   \<and> cache_changed (cache (snd (cache_sweep env s items))) = cache_changed (cache s)
   \<and> cache_file (cache (snd (cache_sweep env s items))) = cache_file (cache s)"
proof (induction items arbitrary: s)
  case Nil
  then show ?case by simp
next
  case (Cons a items)
  obtain p e where a: "a = (p, e)" by (cases a)
  show ?case
    unfolding a cache_sweep_Cons Let_def by (simp add: Cons.IH)
qed

lemma cache_sweep_fields [simp]:
  "plots (snd (cache_sweep env s items)) = plots s"
  "no_key_filenames (snd (cache_sweep env s items)) = no_key_filenames s"
  "events (snd (cache_sweep env s items)) = events s"
  "initial (snd (cache_sweep env s items)) = initial s"
  "cache_changed (cache (snd (cache_sweep env s items))) = cache_changed (cache s)"
  "cache_file (cache (snd (cache_sweep env s items))) = cache_file (cache s)"
  using cache_sweep_frame [of env s items] by simp_all

lemma finish_cycle_fields [simp]:
  "plots (finish_cycle env s) = plots s"
  "no_key_filenames (finish_cycle env s) = no_key_filenames s"
  "events (finish_cycle env s) = events s"
  "initial (finish_cycle env s) = False"
  "cache_changed (cache (finish_cycle env s)) = False"
  "last_refresh_time (finish_cycle env s) = time_time (env (steps (finish_cycle env s) - 1))"
  by (simp_all add: finish_cycle_def case_prod_beta Let_def Cache_save_def Cache_remove_def)

lemma end_cycle_cases:
  "end_cycle env s t =
     (let s1 = snd (env_step env s)
      in if refreshing_enabled s1
         then (case fst (emit env s1 (done_event, t)) of
                 Some e \<Rightarrow> (Some e, snd (emit env s1 (done_event, t)))
               | None \<Rightarrow> (None, finish_cycle env (snd (emit env s1 (done_event, t)))))
         else (None, finish_cycle env s1))"
  by (simp add: end_cycle_def case_prod_beta Let_def split: prod.splits option.splits)


lemma end_cycle_fields [simp]:
  "plots (snd (end_cycle env s t)) = plots s"
  "no_key_filenames (snd (end_cycle env s t)) = no_key_filenames s"
  by (simp_all add: end_cycle_cases Let_def split: option.splits)


lemma drop_missing_keeps_candidate:
  "p \<in> set plot_paths \<Longrightarrow> p \<in> fst ` set live \<Longrightarrow>
   p \<in> fst ` set (fst (snd (drop_missing plot_paths entries live removed_paths)))"
proof (induction entries arbitrary: live removed_paths)
  case Nil
  then show ?case by simp
next
  case (Cons entry entries)
  obtain fn lp dups where entry: "entry = (fn, lp, dups)" by (cases entry)
  show ?case
  proof (cases "Path lp fn \<in> set plot_paths")
    case True
    then show ?thesis
      using Cons.IH [OF Cons.prems] by (simp add: entry case_prod_beta Let_def)
  next
    case False
    then have "Path lp fn \<noteq> p" using Cons.prems(1) by auto
    then have "p \<in> fst ` set (AList.delete (Path lp fn) live)"
      using Cons.prems(2) by (auto simp: AList.delete_eq)
    from Cons.IH [OF Cons.prems(1) this] False show ?thesis
      by (simp add: entry Let_def)
  qed
qed

lemma begin_cycle_cases:
  "begin_cycle env s =
     (let s1 = snd (env_step env s)
      in case get_plot_filenames (env (steps s)) of
           Inl e \<Rightarrow> (Inl e, s1)
         | Inr plot_filenames \<Rightarrow>
             (let plot_paths = concat (map snd plot_filenames);
                  ev = (started, PlotRefreshResult\<lparr>remaining := length plot_paths\<rparr>);
                  s2 = snd (emit env s1 ev);
                  s4 = s2\<lparr>failed_to_open_filenames :=
                            AList.restrict (set plot_paths) (failed_to_open_filenames s2),
                          no_key_filenames := {p \<in> no_key_filenames s2. p \<in> set plot_paths}\<rparr>;
                  dm = drop_missing plot_paths (plot_filename_paths s4) (plots s4) [];
                  s5 = s4\<lparr>plot_filename_paths := fst dm, plots := fst (snd dm)\<rparr>;
                  s6 = snd (env_step env s5)
              in case fst (emit env s1 ev) of
                   Some e \<Rightarrow> (Inl e, s2)
                 | None \<Rightarrow>
                     (case list_to_batches (env (steps s5)) plot_paths
                             (batch_size (refresh_parameter s6)) of
                        Inl e \<Rightarrow> (Inl e, s6)
                      | Inr bs \<Rightarrow>
                          (Inr (PlotRefreshResult\<lparr>removed := snd (snd dm)\<rparr>, bs), s6))))"
  by (simp add: begin_cycle_def case_prod_beta Let_def split: prod.splits option.splits sum.splits)





lemma refresh_cycle_cases:
  "refresh_cycle env s =
     (case fst (begin_cycle env s) of
        Inl e \<Rightarrow> (Some e, snd (begin_cycle env s))
      | Inr tb \<Rightarrow>
          (let rb = refresh_batches env (snd (begin_cycle env s)) (fst tb) (snd tb)
           in case fst rb of
                Inl e \<Rightarrow> (Some e, snd rb)
              | Inr xt \<Rightarrow> end_cycle env (snd rb) (snd xt)))"
  by (simp add: refresh_cycle_def Let_def split: prod.splits sum.splits)

subsection \<open>Events\<close>




subsection \<open>Key rotation\<close>

lemma begin_cycle_keeps_candidate:
  assumes "get_plot_filenames (env (steps s)) = Inr dirs"
    and "p \<in> set (concat (map snd dirs))"
    and "p \<in> fst ` set (plots s)"
  shows "p \<in> fst ` set (plots (snd (begin_cycle env s)))"
  using assms drop_missing_keeps_candidate [OF assms(2), of "plots s"]
  by (simp add: begin_cycle_cases Let_def split: option.splits sum.splits)

lemma begin_cycle_no_key:
  "p \<notin> no_key_filenames s \<Longrightarrow> p \<notin> no_key_filenames (snd (begin_cycle env s))"
  by (simp add: begin_cycle_cases Let_def split: option.splits sum.splits)

text \<open>
  Claim C1, as amended. If a plot was admitted in an earlier cycle (its path is in the live
  plots map and not in the no-key set) and \<^verbatim>\<open>set_public_keys\<close> then replaces the
  allow-lists by any others, in particular by a farmer list without the plot's farmer key,
  then the next completed refresh cycle in which the file is still a candidate does not
  look at the plot again: the path stays in the live plots map, it is not put into the
  no-key set, and \<^verbatim>\<open>plot_count()\<close> is not 0.
\<close>

theorem key_rotation_keeps_admitted_plot:
  assumes "p \<in> fst ` set (plots self)"
    and "p \<notin> no_key_filenames self"
    and "get_plot_filenames (env (steps self)) = Inr dirs"
    and "p \<in> set (concat (map snd dirs))"
    and "refresh_cycle env (set_public_keys self fpks ppks) = (None, self')"
  shows "p \<in> fst ` set (plots self') \<and> p \<notin> no_key_filenames self' \<and> plot_count self' > 0"
proof -
  define s0 where "s0 = set_public_keys self fpks ppks"
  have s0: "p \<in> fst ` set (plots s0)" "p \<notin> no_key_filenames s0"
    "get_plot_filenames (env (steps s0)) = Inr dirs"
    using assms(1-3) by (simp_all add: s0_def set_public_keys_def)
  define s1 where "s1 = snd (begin_cycle env s0)"
  have s1: "p \<in> fst ` set (plots s1)" "p \<notin> no_key_filenames s1"
    using begin_cycle_keeps_candidate [of env s0, OF s0(3) assms(4) s0(1)]
      begin_cycle_no_key [OF s0(2)]
    by (simp_all add: s1_def)
  have live: "\<And>t bs. p \<in> fst ` set (plots (snd (refresh_batches env s1 t bs)))"
    and nokey: "\<And>t bs. p \<notin> no_key_filenames (snd (refresh_batches env s1 t bs))"
    using refresh_batches_keeps_live [OF s1(1)] s1(2) by simp_all
  have "p \<in> fst ` set (plots (snd (refresh_cycle env s0)))
      \<and> p \<notin> no_key_filenames (snd (refresh_cycle env s0))"
    using s1 live nokey
    by (simp add: refresh_cycle_cases Let_def s1_def [symmetric] split: sum.splits)
  then have "p \<in> fst ` set (plots self')" "p \<notin> no_key_filenames self'"
    using assms(5) by (simp_all add: s0_def)
  moreover from this(1) have "plots self' \<noteq> []" by auto
  ultimately show ?thesis by (simp add: plot_count_def)
qed

text \<open>Scenario S4: the plot of S1 is admitted, the farmer allow-list becomes F2.\<close>

theorem key_rotation_keeps_admitted_plot_witness:
  "plot_a \<in> fst ` set (plots admitted_manager)
   \<and> memo_farmer_public_key (pi_prover info_a) \<notin> set [''F2'']
   \<and> refresh_cycle (example_env [] 100) (set_public_keys admitted_manager [''F2''] [''P1''])
       = (None, snd (refresh_cycle (example_env [] 100) (set_public_keys admitted_manager [''F2''] [''P1''])))
   \<and> plot_a \<in> fst ` set (plots (snd (refresh_cycle (example_env [] 100)
         (set_public_keys admitted_manager [''F2''] [''P1'']))))
   \<and> plot_a \<notin> no_key_filenames (snd (refresh_cycle (example_env [] 100)
         (set_public_keys admitted_manager [''F2''] [''P1''])))"
proof -
  let ?E = "example_env [] 100"
  let ?m = "set_public_keys admitted_manager [''F2''] [''P1'']"
  have h1: "plot_a \<in> fst ` set (plots admitted_manager)"
    by (simp add: installation_defs)
  have h2: "plot_a \<notin> no_key_filenames admitted_manager"
    by (simp add: installation_defs)
  have h3: "get_plot_filenames (?E (steps admitted_manager)) = Inr [(''/d1'', [plot_a, plot_b])]"
    by (simp add: installation_defs)
  have h4: "plot_a \<in> set (concat (map snd [(''/d1'', [plot_a, plot_b])]))"
    by simp
  have h5: "refresh_cycle ?E ?m = (None, snd (refresh_cycle ?E ?m))"
    by (simp add: prod_eq_iff cycle_defs worker_defs installation_defs)
  have h6: "memo_farmer_public_key (pi_prover info_a) \<notin> set [''F2'']"
    by (simp add: installation_defs)
  show ?thesis
    using h1 h5 h6
      key_rotation_keeps_admitted_plot [where env = "?E" and self = admitted_manager,
        OF h1 h2 h3 h4 h5]
    by simp
qed

text \<open>
  Claim C1 as stated fails in scenario S4: after the cycle that follows the key rotation
  the plot is still counted and the no-key set does not hold its path.
\<close>

theorem key_rotation_counterexample:
  "plot_a \<in> fst ` set (plots admitted_manager)
   \<and> memo_farmer_public_key (pi_prover info_a) \<notin> set [''F2'']
   \<and> fst (refresh_cycle (example_env [] 100)
            (set_public_keys admitted_manager [''F2''] [''P1''])) = None
   \<and> plot_count (snd (refresh_cycle (example_env [] 100)
            (set_public_keys admitted_manager [''F2''] [''P1'']))) = 1
   \<and> plot_a \<notin> no_key_filenames (snd (refresh_cycle (example_env [] 100)
            (set_public_keys admitted_manager [''F2''] [''P1''])))"
  by (simp add: cycle_defs worker_defs installation_defs)

subsection \<open>The end of a cycle\<close>




















subsection \<open>Exceptions\<close>

text \<open>
  The points of a cycle where the embedding lets an exception arise are the calls into
  code outside the class: the path enumerator, \<^verbatim>\<open>list_to_batches\<close> and the three
  calls of the observer. \<open>py_exception\<close> stands for the instances of \<^verbatim>\<open>Exception\<close>,
  which is what the handler of line 229 names.

  Claim C3. Whatever exception leaves the body of a refresh cycle, the handler of
  \<^verbatim>\<open>_refresh_task\<close> turns it into a call of \<^verbatim>\<open>reset()\<close>: the live plots, the
  deduplication index, the failed-open table and the no-key set are empty afterwards,
  \<^verbatim>\<open>_initial\<close> is true, \<^verbatim>\<open>last_refresh_time\<close> is the clock reading at the reset, and
  the cache is as the cycle left it. The loop is not left: the thread function behaves
  from the iteration that raised as it does from the reset manager at the head of the
  loop.
\<close>

theorem exception_resets_and_loop_continues:
  assumes "refresh_cycle env s3 = (Some e, s4)"
    and "s5 = handle_exception env s4"
  shows "s5 = reset (snd (env_step env s4)) (env (steps s4))
       \<and> plots s5 = [] \<and> plot_filename_paths s5 = []
       \<and> failed_to_open_filenames s5 = [] \<and> no_key_filenames s5 = {}
       \<and> initial s5 = True
       \<and> last_refresh_time s5 = time_time (env (steps s4))
       \<and> cache s5 = cache s4
       \<and> (\<forall>self s2. refreshing_enabled (snd (env_step env self))
             \<longrightarrow> wait_interval env (snd (env_step env self)) = Some s2
             \<longrightarrow> s3 = snd (env_step env s2)
             \<longrightarrow> refreshing_enabled s3
             \<longrightarrow> refresh_task env self = refresh_task env s5)"
proof -
  have "refresh_task env self = refresh_task env s5"
    if "refreshing_enabled (snd (env_step env self))"
      and "wait_interval env (snd (env_step env self)) = Some s2"
      and "s3 = snd (env_step env s2)"
      and "refreshing_enabled s3"
    for self s2
    using that assms
    by (subst refresh_task.simps) (simp add: Let_def)
  then show ?thesis
    using assms(2) by (simp add: handle_exception_def reset_def case_prod_beta Let_def)
qed


text \<open>
  The observer raises on \<^verbatim>\<open>started\<close>, and \<^verbatim>\<open>stop_refreshing\<close> lands after the
  handler has run: the thread function returns with the tables empty, \<^verbatim>\<open>_initial\<close>
  set, \<^verbatim>\<open>last_refresh_time\<close> at the reading of step 5 and the cache untouched.
\<close>

theorem exception_resets_and_loop_continues_witness:
  "fst (refresh_cycle (example_env [started] 6)
          (snd (env_step (example_env [started] 6)
             (snd (env_step (example_env [started] 6)
                (snd (env_step (example_env [started] 6) admitted_manager)))))))
     = Some (Exception ''observer failed'')
   \<and> plot_count admitted_manager = 1
   \<and> map_option plot_count (refresh_task (example_env [started] 6) admitted_manager) = Some 0
   \<and> map_option initial (refresh_task (example_env [started] 6) admitted_manager) = Some True
   \<and> map_option last_refresh_time (refresh_task (example_env [started] 6) admitted_manager)
       = Some 2005
   \<and> map_option cache (refresh_task (example_env [started] 6) admitted_manager)
       = Some (cache admitted_manager)"
proof -
  let ?E = "example_env [started] 6"
  define S1 where "S1 = snd (env_step ?E admitted_manager)"
  define S2 where "S2 = snd (env_step ?E S1)"
  define S3 where "S3 = snd (env_step ?E S2)"
  define S4 where "S4 = snd (refresh_cycle ?E S3)"
  define S5 where "S5 = handle_exception ?E S4"
  have on1: "refreshing_enabled (snd (env_step ?E admitted_manager))"
    by (simp add: env_step_def installation_defs)
  have wait: "wait_interval ?E (snd (env_step ?E admitted_manager)) = Some S2"
    unfolding S2_def S1_def
    by (subst wait_interval.simps) (simp add: needs_refresh_def env_step_def installation_defs)
  have on3: "refreshing_enabled S3"
    unfolding S3_def S2_def S1_def by (simp add: env_step_def installation_defs)
  have raised: "refresh_cycle ?E S3 = (Some (Exception ''observer failed''), S4)"
    unfolding S4_def S3_def S2_def S1_def
    by (simp add: prod_eq_iff cycle_defs installation_defs)
  note handled = exception_resets_and_loop_continues [OF raised S5_def]
  from handled on1 wait S3_def on3
  have continues: "refresh_task ?E admitted_manager = refresh_task ?E S5"
    by blast
  have stopped: "\<not> refreshing_enabled (snd (env_step ?E S5))"
    unfolding S5_def S4_def S3_def S2_def S1_def
    by (simp add: handle_exception_def reset_def cycle_defs installation_defs)
  have returns: "refresh_task ?E S5 = Some (snd (env_step ?E S5))"
    using stopped by (subst refresh_task.simps) (simp add: Let_def)
  have time: "time_time (?E (steps S4)) = 2005"
    unfolding S4_def S3_def S2_def S1_def
    by (simp add: cycle_defs installation_defs)
  have kept: "cache S4 = cache admitted_manager"
    unfolding S4_def S3_def S2_def S1_def
    by (simp add: cycle_defs installation_defs)
  from handled have after: "plots S5 = []" "initial S5"
    "last_refresh_time S5 = time_time (?E (steps S4))" "cache S5 = cache S4"
    by blast+
  have final: "refresh_task ?E admitted_manager = Some (snd (env_step ?E S5))"
    using continues returns by simp
  have first: "fst (refresh_cycle ?E (snd (env_step ?E (snd (env_step ?E
      (snd (env_step ?E admitted_manager))))))) = Some (Exception ''observer failed'')"
    using raised unfolding S3_def S2_def S1_def by simp
  have before: "plot_count admitted_manager = 1"
    by (simp add: plot_count_def installation_defs)
  show ?thesis
    unfolding final using first before after time kept
    by (simp add: plot_count_def)
qed

end
